theory Spec2Isabelle
  imports Main "HOL-Library.Word"
begin

section \<open>JSON values and \<open>JSON.stringify\<close>\<close>

text \<open>
  The proxy handles request bodies parsed by \<open>express.json()\<close> and provider responses
  parsed by \<open>resp.json()\<close>. Such a value is a JSON value. An object is kept as the list of
  its properties in enumeration order, which for keys that are not array indices is the
  order in which the properties were created (for a parsed body: the order of the text).
  The keys of an object are distinct. Numbers are restricted to the integers that a
  JavaScript number holds exactly (up to \<open>2^53\<close> in size), which are printed digit by
  digit; strings are lists of code units below 256.
\<close>

datatype json =
    JNull
  | JBool bool
  | JNum int
  | JStr string
  | JArr "json list"
  | JObj "(string \<times> json) list"

type_synonym byte = "8 word"

text \<open>
  The values that the handlers put into an object literal before handing it to
  \<open>JSON.stringify\<close>: \<open>undefined\<close>, a JSON value, or the \<open>ArrayBuffer\<close> returned by
  \<open>crypto.subtle.digest\<close>.
\<close>

datatype jsval =
    Undefined
  | Json json
  | ArrayBuffer "byte list"

fun truthy :: "json \<Rightarrow> bool" where
  "truthy JNull = False"
| "truthy (JBool b) = b"
| "truthy (JNum n) = (n \<noteq> 0)"
| "truthy (JStr s) = (s \<noteq> [])"
| "truthy (JArr xs) = True"
| "truthy (JObj ps) = True"

fun js_truthy :: "jsval \<Rightarrow> bool" where
  "js_truthy Undefined = False"
| "js_truthy (Json v) = truthy v"
| "js_truthy (ArrayBuffer bs) = True"

definition dquote :: char where
  "dquote = CHR 0x22"

definition backslash :: char where
  "backslash = CHR 0x5C"

definition hex_digit :: "nat \<Rightarrow> char" where
  "hex_digit n = ''0123456789abcdef'' ! (n mod 16)"

text \<open>\<open>QuoteJSONString\<close>: the escape of one code unit.\<close>

definition escape_char :: "char \<Rightarrow> string" where
  "escape_char c =
     (if c = dquote then [backslash, dquote]
      else if c = backslash then [backslash, backslash]
      else if c = CHR 0x08 then [backslash, CHR ''b'']
      else if c = CHR 0x0C then [backslash, CHR ''f'']
      else if c = CHR 0x0A then [backslash, CHR ''n'']
      else if c = CHR 0x0D then [backslash, CHR ''r'']
      else if c = CHR 0x09 then [backslash, CHR ''t'']
      else if (of_char c :: nat) < 32
        then [backslash, CHR ''u'', CHR ''0'', CHR ''0'',
              hex_digit (of_char c div 16), hex_digit (of_char c mod 16)]
      else [c])"

definition quote :: "string \<Rightarrow> string" where
  "quote s = dquote # concat (map escape_char s) @ [dquote]"

fun digits :: "nat \<Rightarrow> string" where
  "digits n =
     (if n < 10 then [''0123456789'' ! n]
      else digits (n div 10) @ [''0123456789'' ! (n mod 10)])"

definition number_to_string :: "int \<Rightarrow> string" where
  "number_to_string i = (if i < 0 then CHR ''-'' # digits (nat (- i)) else digits (nat i))"

fun join_comma :: "string list \<Rightarrow> string" where
  "join_comma [] = []"
| "join_comma [s] = s"
| "join_comma (s # t # ss) = s @ '','' @ join_comma (t # ss)"

fun stringify :: "json \<Rightarrow> string"
  and stringify_elems :: "json list \<Rightarrow> string list"
  and stringify_props :: "(string \<times> json) list \<Rightarrow> string list"
where
  "stringify JNull = ''null''"
| "stringify (JBool b) = (if b then ''true'' else ''false'')"
| "stringify (JNum n) = number_to_string n"
| "stringify (JStr s) = quote s"
| "stringify (JArr xs) = ''['' @ join_comma (stringify_elems xs) @ '']''"
| "stringify (JObj ps) = ''{'' @ join_comma (stringify_props ps) @ ''}''"
| "stringify_elems [] = []"
| "stringify_elems (x # xs) = stringify x # stringify_elems xs"
| "stringify_props [] = []"
| "stringify_props ((k, v) # ps) = (quote k @ '':'' @ stringify v) # stringify_props ps"

text \<open>
  \<open>SerializeJSONProperty\<close> on the values of an object literal: \<open>undefined\<close> gives no text
  (the property is left out), and an \<open>ArrayBuffer\<close>, an object without enumerable own
  properties, gives \<open>{}\<close>.
\<close>

fun serialize_property :: "jsval \<Rightarrow> string option" where
  "serialize_property Undefined = None"
| "serialize_property (Json v) = Some (stringify v)"
| "serialize_property (ArrayBuffer bs) = Some ''{}''"

fun literal_props :: "(string \<times> jsval) list \<Rightarrow> string list" where
  "literal_props [] = []"
| "literal_props ((k, v) # ps) =
     (case serialize_property v of
        None \<Rightarrow> literal_props ps
      | Some s \<Rightarrow> (quote k @ '':'' @ s) # literal_props ps)"

text \<open>\<open>JSON.stringify({k1: v1, ...})\<close> for an object literal.\<close>

definition stringify_literal :: "(string \<times> jsval) list \<Rightarrow> string" where
  "stringify_literal ps = ''{'' @ join_comma (literal_props ps) @ ''}''"

section \<open>The in-process cache store (\<open>MemoryCacher\<close>)\<close>

text \<open>
  An entry of the \<open>Map\<close>: the value and, when a TTL is configured, the time in
  milliseconds at which it expires. Times are the integers that \<open>Date.now()\<close> returns.
\<close>

record entry =
  entry_value :: string
  entry_expires :: "int option"

record memory_cacher =
  ttl :: "int option"
  cache :: "string \<rightharpoonup> entry"

text \<open>The test \<open>value.expires && Date.now() > value.expires\<close>.\<close>

definition expired :: "int \<Rightarrow> entry \<Rightarrow> bool" where
  "expired now e =
     (case entry_expires e of
        None \<Rightarrow> False
      | Some x \<Rightarrow> x \<noteq> 0 \<and> now > x)"

definition MemoryCacher_get :: "int \<Rightarrow> string \<Rightarrow> memory_cacher \<Rightarrow> string option \<times> memory_cacher" where
  "MemoryCacher_get now key c =
     (case cache c key of
        None \<Rightarrow> (None, c)
      | Some v \<Rightarrow>
          if expired now v then (None, c\<lparr>cache := (cache c)(key := None)\<rparr>)
          else (Some (entry_value v), c))"

text \<open>The spread \<open>...(this.ttl && { expires: Date.now() + this.ttl * 1000 })\<close>.\<close>

definition new_expires :: "int \<Rightarrow> int option \<Rightarrow> int option" where
  "new_expires now t =
     (case t of
        None \<Rightarrow> None
      | Some n \<Rightarrow> if n = 0 then None else Some (now + n * 1000))"

definition MemoryCacher_set :: "int \<Rightarrow> string \<Rightarrow> string \<Rightarrow> memory_cacher \<Rightarrow> memory_cacher" where
  "MemoryCacher_set now key val c =
     c\<lparr>cache := (cache c)(key \<mapsto> \<lparr>entry_value = val, entry_expires = new_expires now (ttl c)\<rparr>)\<rparr>"

text \<open>One run of the purge interval's callback.\<close>

definition MemoryCacher_purge :: "int \<Rightarrow> memory_cacher \<Rightarrow> memory_cacher" where
  "MemoryCacher_purge now c =
     c\<lparr>cache := (\<lambda>k. case cache c k of
                       None \<Rightarrow> None
                     | Some v \<Rightarrow> if expired now v then None else Some v)\<rparr>"

text \<open>
  A history of calls on one store, each with the time at which it runs: the calls of
  other requests and the runs of the purge interval that may happen between a \<open>set\<close>
  and a later \<open>get\<close>.
\<close>

datatype cache_op = OpGet string | OpSet string string | OpPurge

fun run_op :: "int \<times> cache_op \<Rightarrow> memory_cacher \<Rightarrow> memory_cacher" where
  "run_op (now, OpGet key) c = snd (MemoryCacher_get now key c)"
| "run_op (now, OpSet key val) c = MemoryCacher_set now key val c"
| "run_op (now, OpPurge) c = MemoryCacher_purge now c"

fun run_ops :: "(int \<times> cache_op) list \<Rightarrow> memory_cacher \<Rightarrow> memory_cacher" where
  "run_ops [] c = c"
| "run_ops (x # xs) c = run_ops xs (run_op x c)"

text \<open>The call neither sets nor overwrites the key.\<close>

fun leaves_key :: "string \<Rightarrow> cache_op \<Rightarrow> bool" where
  "leaves_key k (OpSet key val) = (key \<noteq> k)"
| "leaves_key k (OpGet key) = True"
| "leaves_key k OpPurge = True"

section \<open>Property access and coercions\<close>

text \<open>
  \<open>obj[key]\<close> on a parsed body. Bodies are objects or arrays (\<open>express.json()\<close> in its
  strict mode, \<open>multer\<close> for forms), on which a property read never throws; the names read
  by the handlers are not array indices, so an array has none of them.
\<close>

fun get_prop :: "json \<Rightarrow> string \<Rightarrow> jsval" where
  "get_prop (JObj ps) k = (case map_of ps k of None \<Rightarrow> Undefined | Some v \<Rightarrow> Json v)"
| "get_prop v k = Undefined"

text \<open>The operator \<open>a || b\<close>.\<close>

definition or_else :: "jsval \<Rightarrow> jsval \<Rightarrow> jsval" where
  "or_else a b = (if js_truthy a then a else b)"

text \<open>A call that returns a value or throws an error with a message.\<close>

datatype 'a attempt = Returns 'a | Throws string

text \<open>
  \<open>ToString\<close>, as applied to a property key and inside a template literal. An array is
  joined with commas, \<open>null\<close> elements giving the empty text. An object is converted by
  its \<open>toString\<close>: a plain object (built by \<open>JSON.parse\<close>) inherits the one of
  \<open>Object.prototype\<close>, unless it has a key \<open>toString\<close> of its own, whose value is not a
  function; then, and for an object without prototype (built by \<open>multer\<close> with
  \<open>Object.create(null)\<close>), the conversion throws a \<open>TypeError\<close>. The flag says whether
  the objects are plain.
\<close>

fun to_string :: "bool \<Rightarrow> json \<Rightarrow> string attempt"
  and elems_to_string :: "bool \<Rightarrow> json list \<Rightarrow> string list attempt"
where
  "to_string plain JNull = Returns ''null''"
| "to_string plain (JBool b) = Returns (if b then ''true'' else ''false'')"
| "to_string plain (JNum n) = Returns (number_to_string n)"
| "to_string plain (JStr s) = Returns s"
| "to_string plain (JArr xs) =
     (case elems_to_string plain xs of
        Throws m \<Rightarrow> Throws m
      | Returns ss \<Rightarrow> Returns (join_comma ss))"
| "to_string plain (JObj ps) =
     (if plain \<and> map_of ps ''toString'' = None then Returns ''[object Object]''
      else Throws ''Cannot convert object to primitive value'')"
| "elems_to_string plain [] = Returns []"
| "elems_to_string plain (x # xs) =
     (case (case x of JNull \<Rightarrow> Returns [] | _ \<Rightarrow> to_string plain x) of
        Throws m \<Rightarrow> Throws m
      | Returns t \<Rightarrow>
          (case elems_to_string plain xs of
             Throws m \<Rightarrow> Throws m
           | Returns ss \<Rightarrow> Returns (t # ss)))"

fun js_to_string :: "bool \<Rightarrow> jsval \<Rightarrow> string attempt" where
  "js_to_string plain Undefined = Returns ''undefined''"
| "js_to_string plain (Json v) = to_string plain v"
| "js_to_string plain (ArrayBuffer bs) = Returns ''[object ArrayBuffer]''"

definition opt_to_string :: "string option \<Rightarrow> string" where
  "opt_to_string s = (case s of None \<Rightarrow> ''undefined'' | Some x \<Rightarrow> x)"

text \<open>\<open>{...v}\<close>: the own enumerable properties of a JSON value.\<close>

fun index_props :: "nat \<Rightarrow> json list \<Rightarrow> (string \<times> json) list" where
  "index_props i [] = []"
| "index_props i (x # xs) = (digits i, x) # index_props (Suc i) xs"

fun spread :: "json \<Rightarrow> (string \<times> json) list" where
  "spread (JObj ps) = ps"
| "spread (JArr xs) = index_props 0 xs"
| "spread (JStr s) = index_props 0 (map (\<lambda>c. JStr [c]) s)"
| "spread v = []"

text \<open>\<open>{...ps, k: v}\<close>: an existing property keeps its place, a new one goes last.\<close>

fun set_prop :: "string \<Rightarrow> json \<Rightarrow> (string \<times> json) list \<Rightarrow> (string \<times> json) list" where
  "set_prop k v [] = [(k, v)]"
| "set_prop k v ((k', v') # ps) =
     (if k' = k then (k, v) # ps else (k', v') # set_prop k v ps)"

text \<open>\<open>String.prototype.includes\<close>.\<close>

fun string_includes :: "string \<Rightarrow> string \<Rightarrow> bool" where
  "string_includes [] sub = (sub = [])"
| "string_includes (c # cs) sub = (take (length sub) (c # cs) = sub \<or> string_includes cs sub)"

section \<open>Argument schemas\<close>

text \<open>
  The \<open>zod\<close> schemas of the integrations, as data, and what \<open>schema.parse\<close> does with a
  value: an object schema reads its own keys in the order of the schema and drops every
  other key; \<open>optional\<close> admits a missing value; \<open>or\<close> takes the first alternative that
  accepts. Every value is checked, but a key \<open>__proto__\<close> is left out of the object or
  record that is built. The input \<open>None\<close> is \<open>undefined\<close>.
\<close>

datatype schema =
    ZString
  | ZStringLen nat nat
  | ZNumber
  | ZBoolean
  | ZAny
  | ZEnum "string list"
  | ZArrayMin nat schema
  | ZRecord schema
  | ZObject "(string \<times> schema) list"
  | ZOptional schema
  | ZOr schema schema

datatype zod_result = ZInvalid | ZValid "json option"

fun zparse :: "schema \<Rightarrow> json option \<Rightarrow> zod_result"
  and zparse_elems :: "schema \<Rightarrow> json list \<Rightarrow> json list option"
  and zparse_values :: "schema \<Rightarrow> (string \<times> json) list \<Rightarrow> (string \<times> json) list option"
  and zparse_shape :: "(string \<times> schema) list \<Rightarrow> (string \<times> json) list \<Rightarrow> (string \<times> json) list option"
where
  "zparse ZString v = (case v of Some (JStr s) \<Rightarrow> ZValid v | _ \<Rightarrow> ZInvalid)"
| "zparse (ZStringLen lo hi) v =
     (case v of
        Some (JStr s) \<Rightarrow> if lo \<le> length s \<and> length s \<le> hi then ZValid v else ZInvalid
      | _ \<Rightarrow> ZInvalid)"
| "zparse ZNumber v = (case v of Some (JNum n) \<Rightarrow> ZValid v | _ \<Rightarrow> ZInvalid)"
| "zparse ZBoolean v = (case v of Some (JBool b) \<Rightarrow> ZValid v | _ \<Rightarrow> ZInvalid)"
| "zparse ZAny v = ZValid v"
| "zparse (ZEnum names) v =
     (case v of
        Some (JStr s) \<Rightarrow> if s \<in> set names then ZValid v else ZInvalid
      | _ \<Rightarrow> ZInvalid)"
| "zparse (ZArrayMin n s) v =
     (case v of
        Some (JArr xs) \<Rightarrow>
          (case zparse_elems s xs of
             None \<Rightarrow> ZInvalid
           | Some ys \<Rightarrow> if n \<le> length xs then ZValid (Some (JArr ys)) else ZInvalid)
      | _ \<Rightarrow> ZInvalid)"
| "zparse (ZRecord s) v =
     (case v of
        Some (JObj ps) \<Rightarrow>
          (case zparse_values s ps of
             None \<Rightarrow> ZInvalid
           | Some qs \<Rightarrow> ZValid (Some (JObj qs)))
      | _ \<Rightarrow> ZInvalid)"
| "zparse (ZObject shape) v =
     (case v of
        Some (JObj ps) \<Rightarrow>
          (case zparse_shape shape ps of
             None \<Rightarrow> ZInvalid
           | Some qs \<Rightarrow> ZValid (Some (JObj qs)))
      | _ \<Rightarrow> ZInvalid)"
| "zparse (ZOptional s) v = (case v of None \<Rightarrow> ZValid None | Some x \<Rightarrow> zparse s v)"
| "zparse (ZOr a b) v = (case zparse a v of ZValid r \<Rightarrow> ZValid r | ZInvalid \<Rightarrow> zparse b v)"
| "zparse_elems s [] = Some []"
| "zparse_elems s (x # xs) =
     (case zparse s (Some x) of
        ZValid (Some y) \<Rightarrow> map_option (\<lambda>ys. y # ys) (zparse_elems s xs)
      | _ \<Rightarrow> None)"
| "zparse_values s [] = Some []"
| "zparse_values s ((k, x) # ps) =
     (case zparse s (Some x) of
        ZValid (Some y) \<Rightarrow>
          map_option (\<lambda>qs. if k = ''__proto__'' then qs else (k, y) # qs) (zparse_values s ps)
      | _ \<Rightarrow> None)"
| "zparse_shape [] ps = Some []"
| "zparse_shape ((k, s) # shape) ps =
     (case zparse s (map_of ps k) of
        ZInvalid \<Rightarrow> None
      | ZValid None \<Rightarrow> zparse_shape shape ps
      | ZValid (Some y) \<Rightarrow>
          map_option (\<lambda>qs. if k = ''__proto__'' then qs else (k, y) # qs)
            (zparse_shape shape ps))"

definition message_schema :: schema where
  "message_schema =
     ZObject
       [(''role'', ZEnum [''system'', ''user'', ''assistant'', ''function'']),
        (''content'', ZString),
        (''name'', ZOptional ZString),
        (''function_call'',
           ZOptional (ZObject [(''name'', ZString), (''arguments'', ZRecord ZAny)]))]"

definition function_schema :: schema where
  "function_schema =
     ZObject
       [(''name'', ZString),
        (''description'', ZOptional ZString),
        (''parameters'', ZRecord ZAny)]"

definition chat_tail :: "(string \<times> schema) list" where
  "chat_tail =
     [(''messages'', ZArrayMin 1 message_schema),
      (''functions'', ZOptional (ZArrayMin 0 function_schema)),
      (''function_call'', ZOptional (ZOr ZString (ZRecord ZAny))),
      (''temperature'', ZOptional ZNumber),
      (''top_p'', ZOptional ZNumber),
      (''n'', ZOptional ZNumber),
      (''stop'', ZOptional (ZOr ZString (ZArrayMin 0 ZString))),
      (''max_tokens'', ZOptional ZNumber),
      (''presence_penalty'', ZOptional ZNumber),
      (''frequency_penalty'', ZOptional ZNumber),
      (''logit_bias'', ZOptional (ZRecord ZNumber)),
      (''user'', ZOptional ZString)]"

definition OpenAIChatCompletionArgs :: schema where
  "OpenAIChatCompletionArgs = ZObject ((''model'', ZString) # chat_tail)"

definition AzureOpenAIChatCompletionArgs :: schema where
  "AzureOpenAIChatCompletionArgs = ZObject chat_tail"

text \<open>
  The transcription schema without its first key \<open>file: z.any()\<close>, which accepts whatever
  the merged object holds under \<open>file\<close>; that value is carried beside the checked fields.
\<close>

definition AzureOpenAIAudioTranscriptionArgs :: schema where
  "AzureOpenAIAudioTranscriptionArgs =
     ZObject
       [(''prompt'', ZOptional ZString),
        (''temperature'', ZOptional ZNumber),
        (''response_format'',
           ZOptional (ZEnum [''json'', ''text'', ''srt'', ''vtt'', ''verbose_json''])),
        (''language'', ZOptional (ZStringLen 2 2))]"

definition AzureOpenAIEmbeddingsArgs :: schema where
  "AzureOpenAIEmbeddingsArgs = ZObject [(''input'', ZString), (''user'', ZOptional ZString)]"

section \<open>The platform and the upstream\<close>

text \<open>A file received by \<open>multer\<close>.\<close>

record upload =
  originalname :: string
  mimetype :: string
  buffer :: "byte list"

text \<open>
  The value under \<open>file\<close> in \<open>{ file: req.file, ...data }\<close>: the upload, unless the form
  has a text field of that name, which then replaces it.
\<close>

datatype file_arg = FromUpload upload | FromField json

datatype http_body = TextBody string | FormBody file_arg "(string \<times> json) list"

record http_request =
  http_url :: string
  http_method :: string
  http_headers :: "(string \<times> string) list"
  http_body :: http_body

record http_response =
  status_code :: nat
  content_type :: "string option"
  body_text :: string

datatype fetch_result = FetchFails string | FetchReturns http_response

text \<open>
  What the handlers use and the repository does not define: \<open>JSON.parse\<close> (\<open>None\<close> when it
  throws, with the message of the \<open>SyntaxError\<close>), the message of a \<open>ZodError\<close>, the SHA-256
  digest of \<open>crypto.subtle\<close>, and \<open>fetch\<close>, which is the upstream provider.
\<close>

record env =
  json_parse :: "string \<Rightarrow> json option"
  syntax_error :: "string \<Rightarrow> string"
  zod_message :: "schema \<Rightarrow> json \<Rightarrow> string"
  digest :: "byte list \<Rightarrow> byte list"
  fetch :: "http_request \<Rightarrow> fetch_result"

definition JSON_parse :: "env \<Rightarrow> string \<Rightarrow> json attempt" where
  "JSON_parse E s =
     (case json_parse E s of
        None \<Rightarrow> Throws (syntax_error E s)
      | Some v \<Rightarrow> Returns v)"

text \<open>\<open>schema.parse(data)\<close>: the checked arguments, or a thrown \<open>ZodError\<close>.\<close>

definition schema_parse :: "env \<Rightarrow> schema \<Rightarrow> json \<Rightarrow> json attempt" where
  "schema_parse E sch data =
     (case zparse sch (Some data) of
        ZValid (Some args) \<Rightarrow> Returns args
      | _ \<Rightarrow> Throws (zod_message E sch data))"

text \<open>\<open>await resp.json()\<close> after \<open>await fetch(...)\<close>.\<close>

definition fetch_json :: "env \<Rightarrow> http_request \<Rightarrow> json attempt" where
  "fetch_json E rq =
     (case fetch E rq of
        FetchFails m \<Rightarrow> Throws m
      | FetchReturns r \<Rightarrow> JSON_parse E (body_text r))"

section \<open>Provider adapters\<close>

text \<open>
  The handlers pass options without \<open>stream\<close>, so each adapter is its non-streaming
  path. An adapter gives the requests it sends (one or none) and what it returns or throws.
\<close>

definition oai_chat_request :: "string \<Rightarrow> json \<Rightarrow> http_request" where
  "oai_chat_request apiKey args =
     \<lparr>http_url = ''https://api.openai.com/v1/chat/completions'',
      http_method = ''POST'',
      http_headers = [(''Authorization'', ''Bearer '' @ apiKey),
                      (''Content-Type'', ''application/json'')],
      http_body = TextBody (stringify args)\<rparr>"

definition oai_chatCompletion :: "env \<Rightarrow> string \<Rightarrow> json \<Rightarrow> http_request list \<times> json attempt" where
  "oai_chatCompletion E apiKey args =
     ([oai_chat_request apiKey args], fetch_json E (oai_chat_request apiKey args))"

record AzureOpenAIOpts =
  deploymentId :: jsval
  apiKey :: string
  url :: "string option"

text \<open>
  The template literal
  \<open>`${opts.url}/openai/deployments/${opts.deploymentId}...`\<close>: the deployment id is
  converted to text, which throws for some objects; then no request is sent.
\<close>

definition azure_url :: "bool \<Rightarrow> AzureOpenAIOpts \<Rightarrow> string \<Rightarrow> string attempt" where
  "azure_url plain opts rest =
     (case js_to_string plain (deploymentId opts) of
        Throws m \<Rightarrow> Throws m
      | Returns d \<Rightarrow> Returns (opt_to_string (url opts) @ ''/openai/deployments/'' @ d @ rest))"

definition azoai_chat_request :: "string \<Rightarrow> AzureOpenAIOpts \<Rightarrow> json \<Rightarrow> http_request" where
  "azoai_chat_request u opts args =
     \<lparr>http_url = u,
      http_method = ''POST'',
      http_headers = [(''api-key'', apiKey opts), (''Content-Type'', ''application/json'')],
      http_body = TextBody (stringify (JObj (set_prop ''stream'' (JBool False) (spread args))))\<rparr>"

definition azoai_chatCompletion ::
  "env \<Rightarrow> bool \<Rightarrow> AzureOpenAIOpts \<Rightarrow> json \<Rightarrow> http_request list \<times> json attempt" where
  "azoai_chatCompletion E plain opts args =
     (case azure_url plain opts ''/chat/completions?api-version=2023-08-01-preview'' of
        Throws m \<Rightarrow> ([], Throws m)
      | Returns u \<Rightarrow>
          ([azoai_chat_request u opts args], fetch_json E (azoai_chat_request u opts args)))"

definition azoai_embeddings_request :: "string \<Rightarrow> AzureOpenAIOpts \<Rightarrow> json \<Rightarrow> http_request" where
  "azoai_embeddings_request u opts args =
     \<lparr>http_url = u,
      http_method = ''POST'',
      http_headers = [(''api-key'', apiKey opts), (''Content-Type'', ''application/json'')],
      http_body = TextBody (stringify args)\<rparr>"

definition azoai_embeddings ::
  "env \<Rightarrow> bool \<Rightarrow> AzureOpenAIOpts \<Rightarrow> json \<Rightarrow> http_request list \<times> json attempt" where
  "azoai_embeddings E plain opts args =
     (case azure_url plain opts ''/embeddings?api-version=2023-08-01-preview'' of
        Throws m \<Rightarrow> ([], Throws m)
      | Returns u \<Rightarrow>
          ([azoai_embeddings_request u opts args],
           fetch_json E (azoai_embeddings_request u opts args)))"

text \<open>
  \<open>audioTranscription\<close>: the form holds the file and the other entries of the arguments;
  the result is the response text with its content type, whatever the status.
\<close>

definition transcription_result :: "http_response \<Rightarrow> json" where
  "transcription_result r =
     JObj [(''data'', JStr (body_text r)),
           (''contentType'',
              JStr (case content_type r of
                      None \<Rightarrow> ''text/plain''
                    | Some c \<Rightarrow> if c = [] then ''text/plain'' else c))]"

definition azoai_transcription_request ::
  "string \<Rightarrow> AzureOpenAIOpts \<Rightarrow> file_arg \<Rightarrow> json \<Rightarrow> http_request" where
  "azoai_transcription_request u opts file args =
     \<lparr>http_url = u,
      http_method = ''POST'',
      http_headers = [(''api-key'', apiKey opts)],
      http_body = FormBody file (spread args)\<rparr>"

definition azoai_audioTranscription ::
  "env \<Rightarrow> bool \<Rightarrow> AzureOpenAIOpts \<Rightarrow> file_arg \<Rightarrow> json \<Rightarrow> http_request list \<times> json attempt" where
  "azoai_audioTranscription E plain opts file args =
     (if file = FromField JNull
      then ([], Throws ''Cannot read properties of null (reading 'originalname')'')
      else
        (case azure_url plain opts ''/audio/transcriptions?api-version=2023-09-01-preview'' of
           Throws m \<Rightarrow> ([], Throws m)
         | Returns u \<Rightarrow>
             ([azoai_transcription_request u opts file args],
              case fetch E (azoai_transcription_request u opts file args) of
                FetchFails m \<Rightarrow> Throws m
              | FetchReturns r \<Rightarrow> Returns (transcription_result r))))"

section \<open>Configuration\<close>

datatype provider_type = OpenAI | AzureOpenAIService | Anthropic | Replicate | Cohere

record provider_config =
  ptype :: provider_type
  api_key :: string
  provider_url :: "string option"

text \<open>\<open>config.providers\<close>: the own properties of the object that the schema parse built.\<close>

record config =
  providers :: "(string \<times> provider_config) list"

text \<open>
  \<open>config.providers[provider]\<close> is a property read on a plain object: it finds an own
  property, or else a property of \<open>Object.prototype\<close>, or else gives \<open>undefined\<close>. The
  inherited values are functions: truthy, without a \<open>type\<close>. The names are those of the
  Deno runtime, which deletes \<open>__proto__\<close> from \<open>Object.prototype\<close>.
\<close>

datatype found = Own provider_config | Inherited | Missing

definition object_prototype_names :: "string list" where
  "object_prototype_names =
     [''constructor'', ''__defineGetter__'', ''__defineSetter__'', ''hasOwnProperty'',
      ''__lookupGetter__'', ''__lookupSetter__'', ''isPrototypeOf'', ''propertyIsEnumerable'',
      ''toString'', ''valueOf'', ''toLocaleString'']"

definition providers_lookup :: "config \<Rightarrow> string \<Rightarrow> found" where
  "providers_lookup cfg key =
     (case map_of (providers cfg) key of
        Some pc \<Rightarrow> Own pc
      | None \<Rightarrow> if key \<in> set object_prototype_names then Inherited else Missing)"

text \<open>
  The read with the provider of the request as the key: the key is first converted to
  text, which may throw.
\<close>

definition lookup_provider :: "bool \<Rightarrow> config \<Rightarrow> jsval \<Rightarrow> found attempt" where
  "lookup_provider plain cfg provider =
     (case js_to_string plain provider of
        Throws m \<Rightarrow> Throws m
      | Returns key \<Rightarrow> Returns (providers_lookup cfg key))"

section \<open>The cache store interface\<close>

text \<open>
  \<open>interface Cacher\<close>: \<open>get\<close> and \<open>set\<close> on a store of state \<open>'s\<close>, at the time given. Either
  may throw (a rejected promise).
\<close>

record 's cacher =
  cacher_get :: "int \<Rightarrow> string \<Rightarrow> 's \<Rightarrow> string option attempt \<times> 's"
  cacher_set :: "int \<Rightarrow> string \<Rightarrow> string \<Rightarrow> 's \<Rightarrow> unit attempt \<times> 's"

definition MemoryCacher :: "memory_cacher cacher" where
  "MemoryCacher =
     \<lparr>cacher_get = (\<lambda>now key c. (Returns (fst (MemoryCacher_get now key c)),
                                   snd (MemoryCacher_get now key c))),
      cacher_set = (\<lambda>now key val c. (Returns (), MemoryCacher_set now key val c))\<rparr>"

text \<open>
  \<open>RedisCacher\<close> sends each call to a Redis server through a client library; neither is
  part of the repository. The server is a map of strings, and a connection that failed, or
  a command that fails, rejects with a message. Expiry is the server's own and is left out.
\<close>

record redis_cacher =
  redis_failure :: "string option"
  redis_data :: "string \<rightharpoonup> string"

definition RedisCacher_get :: "string \<Rightarrow> redis_cacher \<Rightarrow> string option attempt \<times> redis_cacher" where
  "RedisCacher_get key c =
     (case redis_failure c of
        Some m \<Rightarrow> (Throws m, c)
      | None \<Rightarrow> (Returns (redis_data c key), c))"

definition RedisCacher_set :: "string \<Rightarrow> string \<Rightarrow> redis_cacher \<Rightarrow> unit attempt \<times> redis_cacher" where
  "RedisCacher_set key val c =
     (case redis_failure c of
        Some m \<Rightarrow> (Throws m, c)
      | None \<Rightarrow> (Returns (), c\<lparr>redis_data := (redis_data c)(key \<mapsto> val)\<rparr>))"

definition RedisCacher :: "redis_cacher cacher" where
  "RedisCacher =
     \<lparr>cacher_get = (\<lambda>now key c. RedisCacher_get key c),
      cacher_set = (\<lambda>now key val c. RedisCacher_set key val c)\<rparr>"

section \<open>Requests, responses and effects\<close>

text \<open>
  A request: its headers under their lower-case names, the parsed body, whether it is a
  multipart form, and the file uploaded with the form. The body of a multipart form is
  built by \<open>multer\<close>, every other body by \<open>express.json()\<close>; \<open>multer\<close> leaves
  \<open>req.file\<close> undefined for a request that is not multipart.
\<close>

record request =
  req_header :: "string \<rightharpoonup> string"
  body :: json
  multipart :: bool
  req_file :: "upload option"

definition uploaded_file :: "request \<Rightarrow> upload option" where
  "uploaded_file req = (if multipart req then req_file req else None)"

definition header :: "request \<Rightarrow> string \<Rightarrow> jsval" where
  "header req name = (case req_header req name of None \<Rightarrow> Undefined | Some s \<Rightarrow> Json (JStr s))"

text \<open>\<open>req.header("Cache-Control")?.includes("no-cache")\<close>.\<close>

definition no_cache :: "request \<Rightarrow> bool" where
  "no_cache req =
     (case req_header req ''cache-control'' of
        None \<Rightarrow> False
      | Some h \<Rightarrow> string_includes h ''no-cache'')"

text \<open>
  A response is the calls made on \<open>res\<close>: the status, the headers set, and the value given
  to \<open>res.json\<close> or \<open>res.send\<close>, each recorded as it is passed. A handler ends with a
  response, or returns without one, or its promise rejects because an error left the
  handler: from the provider check, which stands before the \<open>try\<close> block, or from the
  \<open>catch\<close> block.
\<close>

datatype payload = ResJson json | ResSend jsval

record response =
  status :: nat
  headers :: "(string \<times> jsval) list"
  payload :: payload

datatype outcome = Responded response | NoResponse | Rejected string

text \<open>The calls that leave the handler: on the cache store and to the upstream.\<close>

datatype event = CacheGet string | CacheSet string string | Upstream http_request

text \<open>
  The result of a \<open>try\<close> block: it ran to its end or to a \<open>return\<close>, with the outcome so
  far, or it threw an error with a message, after the headers listed had been set on
  \<open>res\<close>.
\<close>

datatype tried = Done outcome | Threw string "(string \<times> jsval) list"

type_synonym 's run = "tried \<times> 's \<times> event list"

definition invalid_provider :: response where
  "invalid_provider =
     \<lparr>status = 400, headers = [],
      payload = ResJson (JObj [(''error'', JStr ''Invalid provider.''),
                               (''source'', JStr ''proxy'')])\<rparr>"

text \<open>\<open>res.status(500).json({ error, message, source })\<close> on a \<open>res\<close> with headers set.\<close>

definition internal_error :: "(string \<times> jsval) list \<Rightarrow> json \<Rightarrow> response" where
  "internal_error hs msg =
     \<lparr>status = 500, headers = hs,
      payload = ResJson (JObj [(''error'', JStr ''Internal server error.''),
                               (''message'', msg),
                               (''source'', JStr ''proxy'')])\<rparr>"

definition json_response :: "json \<Rightarrow> response" where
  "json_response v = \<lparr>status = 200, headers = [], payload = ResJson v\<rparr>"

definition hit_header :: "(string \<times> jsval) list" where
  "hit_header = [(''X-Cache-Status'', Json (JStr ''HIT''))]"

text \<open>\<open>res.header("X-Cache-Status", "HIT").json({ ...JSON.parse(cached), cached: true })\<close>.\<close>

definition hit_response :: "json \<Rightarrow> response" where
  "hit_response v =
     \<lparr>status = 200, headers = hit_header,
      payload = ResJson (JObj (set_prop ''cached'' (JBool True) (spread v)))\<rparr>"

text \<open>The two \<open>catch\<close> blocks: with \<open>JSON.parse(e.message)\<close>, and with \<open>e.message\<close>.\<close>

definition catch_parsed :: "env \<Rightarrow> 's run \<Rightarrow> outcome \<times> 's \<times> event list" where
  "catch_parsed E r =
     (case r of
        (Done out, st, evs) \<Rightarrow> (out, st, evs)
      | (Threw m hs, st, evs) \<Rightarrow>
          (case JSON_parse E m of
             Throws m' \<Rightarrow> (Rejected m', st, evs)
           | Returns j \<Rightarrow> (Responded (internal_error hs j), st, evs)))"

definition catch_message :: "'s run \<Rightarrow> outcome \<times> 's \<times> event list" where
  "catch_message r =
     (case r of
        (Done out, st, evs) \<Rightarrow> (out, st, evs)
      | (Threw m hs, st, evs) \<Rightarrow> (Responded (internal_error hs (JStr m)), st, evs))"

definition after :: "event list \<Rightarrow> 's run \<Rightarrow> 's run" where
  "after evs r = (case r of (x, st, evs') \<Rightarrow> (x, st, evs @ evs'))"

text \<open>
  The guarded read
  \<open>if (cacher && !req.header("Cache-Control")?.includes("no-cache")) cached = await cacher.get(key)\<close>;
  \<open>None\<close> also stands for a read that was not made.
\<close>

definition cache_lookup :: "'s cacher option \<Rightarrow> int \<Rightarrow> request \<Rightarrow> string \<Rightarrow> 's
    \<Rightarrow> string option attempt \<times> 's \<times> event list" where
  "cache_lookup cacher now req key st =
     (case cacher of
        None \<Rightarrow> (Returns None, st, [])
      | Some c \<Rightarrow>
          if no_cache req then (Returns None, st, [])
          else (fst (cacher_get c now key st), snd (cacher_get c now key st), [CacheGet key]))"

text \<open>The test \<open>if (cached)\<close> on a string or \<open>null\<close>.\<close>

definition truthy_string :: "string option \<Rightarrow> string option" where
  "truthy_string c = (case c of None \<Rightarrow> None | Some s \<Rightarrow> if s = [] then None else Some s)"

text \<open>\<open>cacher?.set(key, value)\<close>, not awaited: what it returns or throws is dropped.\<close>

definition cache_write :: "'s cacher option \<Rightarrow> int \<Rightarrow> string \<Rightarrow> string \<Rightarrow> 's \<Rightarrow> 's \<times> event list" where
  "cache_write cacher now key val st =
     (case cacher of
        None \<Rightarrow> (st, [])
      | Some c \<Rightarrow> (snd (cacher_set c now key val st), [CacheSet key val]))"

definition azure_opts :: "request \<Rightarrow> provider_config \<Rightarrow> AzureOpenAIOpts" where
  "azure_opts req pc =
     \<lparr>deploymentId = or_else (header req ''azure-openai-deployment-id'')
                               (get_prop (body req) ''deploymentId''),
      apiKey = api_key pc,
      url = provider_url pc\<rparr>"

section \<open>The handler of \<open>/chat/completion\<close>\<close>

text \<open>\<open>res.json(resp); cacher?.set(key, JSON.stringify(resp)); return\<close> after the adapter.\<close>

definition respond_and_store ::
  "'s cacher option \<Rightarrow> int \<Rightarrow> string \<Rightarrow> http_request list \<times> json attempt \<Rightarrow> 's \<Rightarrow> 's run" where
  "respond_and_store cacher now key call st =
     (case call of
        (rqs, Throws m) \<Rightarrow> (Threw m [], st, map Upstream rqs)
      | (rqs, Returns resp) \<Rightarrow>
          (Done (Responded (json_response resp)),
           fst (cache_write cacher now key (stringify resp) st),
           map Upstream rqs @ snd (cache_write cacher now key (stringify resp) st)))"

text \<open>
  The branches on \<open>providerConfig.type\<close>, reached when the cache gave nothing. The body
  comes from \<open>express.json()\<close>, so its objects are plain.
\<close>

definition chat_forward :: "env \<Rightarrow> 's cacher option \<Rightarrow> int \<Rightarrow> request \<Rightarrow> string \<Rightarrow> found \<Rightarrow> 's \<Rightarrow> 's run" where
  "chat_forward E cacher now req key fnd st =
     (case fnd of
        Own pc \<Rightarrow>
          if ptype pc = OpenAI then
            (if js_truthy (get_prop (body req) ''stream'') then (Done NoResponse, st, [])
             else
               (case schema_parse E OpenAIChatCompletionArgs (body req) of
                  Throws m \<Rightarrow> (Threw m [], st, [])
                | Returns args \<Rightarrow>
                    respond_and_store cacher now key (oai_chatCompletion E (api_key pc) args) st))
          else if ptype pc = AzureOpenAIService then
            (if js_truthy (get_prop (body req) ''stream'') then (Done NoResponse, st, [])
             else
               (case schema_parse E AzureOpenAIChatCompletionArgs (body req) of
                  Throws m \<Rightarrow> (Threw m [], st, [])
                | Returns args \<Rightarrow>
                    respond_and_store cacher now key
                      (azoai_chatCompletion E True (azure_opts req pc) args) st))
          else (Done NoResponse, st, [])
      | Inherited \<Rightarrow> (Done NoResponse, st, [])
      | Missing \<Rightarrow> (Done NoResponse, st, []))"

text \<open>The cache key of the handler: \<open>JSON.stringify({ provider, data })\<close>.\<close>

definition chat_key :: "jsval \<Rightarrow> json \<Rightarrow> string" where
  "chat_key provider data = stringify_literal [(''provider'', provider), (''data'', Json data)]"

definition request_provider :: "request \<Rightarrow> jsval" where
  "request_provider req = or_else (get_prop (body req) ''provider'') (header req ''x-provider'')"

text \<open>
  The handler, with the time of the cache read and the time of the cache write. It gives
  the outcome, the state of the store afterwards, and the calls made in order. The
  provider check stands before the \<open>try\<close> block: an error of the key conversion leaves the
  handler. On a hit the header is set before the cached text is parsed.
\<close>

definition chat_completion_handler ::
  "env \<Rightarrow> config \<Rightarrow> 's cacher option \<Rightarrow> int \<Rightarrow> int \<Rightarrow> request \<Rightarrow> 's \<Rightarrow> outcome \<times> 's \<times> event list" where
  "chat_completion_handler E cfg cacher t_get t_set req st =
     (let provider = request_provider req;
          key = chat_key provider (body req)
      in case lookup_provider True cfg provider of
           Throws m \<Rightarrow> (Rejected m, st, [])
         | Returns fnd \<Rightarrow>
             if fnd = Missing then (Responded invalid_provider, st, [])
             else
               catch_parsed E
                 (case cache_lookup cacher t_get req key st of
                    (Throws m, st1, evs) \<Rightarrow> (Threw m [], st1, evs)
                  | (Returns cached, st1, evs) \<Rightarrow>
                      (case truthy_string cached of
                         Some s \<Rightarrow>
                           (case JSON_parse E s of
                              Throws m \<Rightarrow> (Threw m hit_header, st1, evs)
                            | Returns v \<Rightarrow> (Done (Responded (hit_response v)), st1, evs))
                       | None \<Rightarrow> after evs (chat_forward E cacher t_set req key fnd st1))))"

section \<open>The handler of \<open>/audio/transcriptions\<close>\<close>

text \<open>
  The cache key: \<open>JSON.stringify({ provider, data, fileHash })\<close>, where \<open>fileHash\<close> is the
  \<open>ArrayBuffer\<close> that \<open>crypto.subtle.digest\<close> returned.
\<close>

definition transcription_key :: "jsval \<Rightarrow> json \<Rightarrow> byte list \<Rightarrow> string" where
  "transcription_key provider data fileHash =
     stringify_literal
       [(''provider'', provider), (''data'', Json data), (''fileHash'', ArrayBuffer fileHash)]"

text \<open>\<open>res.header("Content-Type", resp.contentType).send(resp.data)\<close>.\<close>

definition sent_response :: "(string \<times> jsval) list \<Rightarrow> json \<Rightarrow> response" where
  "sent_response hs resp =
     \<lparr>status = 200,
      headers = hs @ [(''Content-Type'', get_prop resp ''contentType'')],
      payload = ResSend (get_prop resp ''data'')\<rparr>"

text \<open>
  \<open>res.header("X-Cache-Status", "HIT").header("Content-Type", resp.contentType).send(resp.data)\<close>:
  the first header is set before \<open>resp.contentType\<close> is read, which throws when the cached
  text was \<open>null\<close>.
\<close>

definition transcription_hit :: "json \<Rightarrow> tried" where
  "transcription_hit resp =
     (if resp = JNull
      then Threw ''Cannot read properties of null (reading 'contentType')'' hit_header
      else Done (Responded (sent_response hit_header resp)))"

definition merged_file :: "upload \<Rightarrow> json \<Rightarrow> file_arg" where
  "merged_file f data =
     (case map_of (spread data) ''file'' of
        None \<Rightarrow> FromUpload f
      | Some v \<Rightarrow> FromField v)"

text \<open>
  The objects of the body are plain unless the request is a multipart form, whose body
  \<open>multer\<close> builds from objects without prototype.
\<close>

definition transcription_forward ::
  "env \<Rightarrow> 's cacher option \<Rightarrow> int \<Rightarrow> request \<Rightarrow> upload \<Rightarrow> string \<Rightarrow> found \<Rightarrow> 's \<Rightarrow> 's run" where
  "transcription_forward E cacher now req f key fnd st =
     (case fnd of
        Own pc \<Rightarrow>
          if ptype pc = OpenAI then (Done NoResponse, st, [])
          else if ptype pc = AzureOpenAIService then
            (case schema_parse E AzureOpenAIAudioTranscriptionArgs (JObj (spread (body req))) of
               Throws m \<Rightarrow> (Threw m [], st, [])
             | Returns args \<Rightarrow>
                 (case azoai_audioTranscription E (\<not> multipart req) (azure_opts req pc)
                         (merged_file f (body req)) args of
                    (rqs, Throws m) \<Rightarrow> (Threw m [], st, map Upstream rqs)
                  | (rqs, Returns resp) \<Rightarrow>
                      (Done (Responded (sent_response [] resp)),
                       fst (cache_write cacher now key (stringify resp) st),
                       map Upstream rqs @ snd (cache_write cacher now key (stringify resp) st))))
          else (Done NoResponse, st, [])
      | Inherited \<Rightarrow> (Done NoResponse, st, [])
      | Missing \<Rightarrow> (Done NoResponse, st, []))"

definition audio_transcriptions_handler ::
  "env \<Rightarrow> config \<Rightarrow> 's cacher option \<Rightarrow> int \<Rightarrow> int \<Rightarrow> request \<Rightarrow> 's \<Rightarrow> outcome \<times> 's \<times> event list" where
  "audio_transcriptions_handler E cfg cacher t_get t_set req st =
     (let provider = request_provider req
      in case lookup_provider (\<not> multipart req) cfg provider of
           Throws m \<Rightarrow> (Rejected m, st, [])
         | Returns fnd \<Rightarrow>
             if fnd = Missing then (Responded invalid_provider, st, [])
             else
               catch_message
                 (case uploaded_file req of
                    None \<Rightarrow>
                      (Threw ''Cannot read properties of undefined (reading 'buffer')'' [], st, [])
                  | Some f \<Rightarrow>
                      let key = transcription_key provider (body req) (digest E (buffer f))
                      in (case cache_lookup cacher t_get req key st of
                            (Throws m, st1, evs) \<Rightarrow> (Threw m [], st1, evs)
                          | (Returns cached, st1, evs) \<Rightarrow>
                              (case truthy_string cached of
                                 Some s \<Rightarrow>
                                   (case JSON_parse E s of
                                      Throws m \<Rightarrow> (Threw m [], st1, evs)
                                    | Returns resp \<Rightarrow> (transcription_hit resp, st1, evs))
                               | None \<Rightarrow>
                                   after evs
                                     (transcription_forward E cacher t_set req f key fnd st1)))))"

section \<open>The handler of \<open>/embeddings\<close>\<close>

definition embeddings_handler ::
  "env \<Rightarrow> config \<Rightarrow> request \<Rightarrow> 's \<Rightarrow> outcome \<times> 's \<times> event list" where
  "embeddings_handler E cfg req st =
     (let provider = request_provider req
      in case lookup_provider True cfg provider of
           Throws m \<Rightarrow> (Rejected m, st, [])
         | Returns fnd \<Rightarrow>
             if fnd = Missing then (Responded invalid_provider, st, [])
             else
               catch_parsed E
                 (case fnd of
                    Own pc \<Rightarrow>
                      if ptype pc = OpenAI then (Done NoResponse, st, [])
                      else if ptype pc = AzureOpenAIService then
                        (case schema_parse E AzureOpenAIEmbeddingsArgs (body req) of
                           Throws m \<Rightarrow> (Threw m [], st, [])
                         | Returns args \<Rightarrow>
                             (case azoai_embeddings E True (azure_opts req pc) args of
                                (rqs, Throws m) \<Rightarrow> (Threw m [], st, map Upstream rqs)
                              | (rqs, Returns resp) \<Rightarrow>
                                  (Done (Responded (json_response resp)), st, map Upstream rqs)))
                      else (Done NoResponse, st, [])
                  | Inherited \<Rightarrow> (Done NoResponse, st, [])
                  | Missing \<Rightarrow> (Done NoResponse, st, [])))"

section \<open>Reading the calls of a run\<close>


fun cache_key :: "event \<Rightarrow> string option" where
  "cache_key (CacheGet k) = Some k"
| "cache_key (CacheSet k v) = Some k"
| "cache_key (Upstream rq) = None"

fun upstream_urls :: "event list \<Rightarrow> string list" where
  "upstream_urls [] = []"
| "upstream_urls (Upstream rq # es) = http_url rq # upstream_urls es"
| "upstream_urls (e # es) = upstream_urls es"

section \<open>Example inputs\<close>

definition example_store :: memory_cacher where
  "example_store =
     \<lparr>ttl = Some 1,
      cache = [''old'' \<mapsto> \<lparr>entry_value = ''a'', entry_expires = Some 1000\<rparr>,
               ''new'' \<mapsto> \<lparr>entry_value = ''b'', entry_expires = Some 9000\<rparr>]\<rparr>"

definition example_history :: "(int \<times> cache_op) list" where
  "example_history = [(1200, OpPurge), (1500, OpGet ''k''), (1800, OpSet ''j'' ''w'')]"

definition example_config :: config where
  "example_config =
     \<lparr>providers =
        [(''p1'', \<lparr>ptype = OpenAI, api_key = ''sk-1'', provider_url = None\<rparr>),
         (''az'', \<lparr>ptype = AzureOpenAIService, api_key = ''key-2'',
                   provider_url = Some ''https://az.example''\<rparr>),
         (''claude'', \<lparr>ptype = Anthropic, api_key = ''key-3'', provider_url = None\<rparr>)]\<rparr>"

definition ok_body :: json where
  "ok_body = JObj [(''id'', JStr ''chatcmpl-1''), (''choices'', JArr [])]"

definition error_body :: json where
  "error_body = JObj [(''error'', JObj [(''code'', JStr ''invalid_api_key'')])]"

definition upload_a :: upload where
  "upload_a = \<lparr>originalname = ''a.wav'', mimetype = ''audio/wav'', buffer = [1, 2, 3]\<rparr>"

definition upload_b :: upload where
  "upload_b = \<lparr>originalname = ''b.wav'', mimetype = ''audio/wav'', buffer = [4, 5, 6]\<rparr>"

definition transcript_a :: json where
  "transcript_a = JObj [(''data'', JStr ''transcript of a.wav''),
                        (''contentType'', JStr ''text/plain'')]"

definition known_json :: "json list" where
  "known_json = [ok_body, error_body, transcript_a, JArr []]"

text \<open>
  An environment for the examples: \<open>JSON.parse\<close> inverts \<open>JSON.stringify\<close> on the values
  listed and rejects every other text; the digest is the identity, which tells any two
  files apart.
\<close>

definition example_env :: "(http_request \<Rightarrow> fetch_result) \<Rightarrow> env" where
  "example_env f =
     \<lparr>json_parse = (\<lambda>s. find (\<lambda>v. stringify v = s) known_json),
      syntax_error = (\<lambda>s. ''Unexpected token''),
      zod_message = (\<lambda>sch v. ''[]''),
      digest = (\<lambda>bs. bs),
      fetch = f\<rparr>"

definition upstream_ok :: "http_request \<Rightarrow> fetch_result" where
  "upstream_ok rq =
     FetchReturns \<lparr>status_code = 200, content_type = Some ''application/json'',
                   body_text = stringify ok_body\<rparr>"

definition upstream_401 :: "http_request \<Rightarrow> fetch_result" where
  "upstream_401 rq =
     FetchReturns \<lparr>status_code = 401, content_type = Some ''application/json'',
                   body_text = stringify error_body\<rparr>"

definition upstream_down :: "http_request \<Rightarrow> fetch_result" where
  "upstream_down rq = FetchFails ''error sending request''"

definition upstream_transcribe :: "http_request \<Rightarrow> fetch_result" where
  "upstream_transcribe rq =
     FetchReturns \<lparr>status_code = 200, content_type = Some ''text/plain'',
                   body_text = (case http_body rq of
                                  FormBody (FromUpload u) fs \<Rightarrow> ''transcript of '' @ originalname u
                                | _ \<Rightarrow> [])\<rparr>"

definition chat_body :: json where
  "chat_body =
     JObj [(''model'', JStr ''gpt-x''),
           (''messages'', JArr [JObj [(''role'', JStr ''user''), (''content'', JStr ''hi'')]])]"

definition stream_body :: json where
  "stream_body =
     JObj [(''model'', JStr ''gpt-x''),
           (''messages'', JArr [JObj [(''role'', JStr ''user''), (''content'', JStr ''hi'')]]),
           (''stream'', JBool True)]"

definition reordered_body :: json where
  "reordered_body =
     JObj [(''messages'', JArr [JObj [(''role'', JStr ''user''), (''content'', JStr ''hi'')]]),
           (''model'', JStr ''gpt-x'')]"

definition embeddings_body :: json where
  "embeddings_body = JObj [(''input'', JStr ''hello'')]"

definition example_request :: "string \<Rightarrow> json \<Rightarrow> request" where
  "example_request p b =
     \<lparr>req_header = [''x-provider'' \<mapsto> p], body = b, multipart = False, req_file = None\<rparr>"


definition upload_request :: "string \<Rightarrow> upload \<Rightarrow> request" where
  "upload_request p u =
     \<lparr>req_header = [''x-provider'' \<mapsto> p], body = JObj [(''language'', JStr ''en'')],
      multipart = True, req_file = Some u\<rparr>"

definition empty_store :: memory_cacher where
  "empty_store = \<lparr>ttl = Some 60, cache = Map.empty\<rparr>"


definition redis_down :: redis_cacher where
  "redis_down = \<lparr>redis_failure = Some ''Connection refused'', redis_data = Map.empty\<rparr>"

definition redis_up :: redis_cacher where
  "redis_up = \<lparr>redis_failure = None, redis_data = Map.empty\<rparr>"

section \<open>Properties of the in-process cache store\<close>

lemma expired_mono: "expired t' e \<Longrightarrow> t' \<le> t \<Longrightarrow> expired t e"
  by (auto simp: expired_def split: option.splits)

lemma run_op_key_cases:
  "leaves_key k (snd x) \<Longrightarrow> cache (run_op x c) k = None \<or> cache (run_op x c) k = cache c k"
  by (cases x; cases "snd x")
     (auto simp: MemoryCacher_get_def MemoryCacher_set_def MemoryCacher_purge_def
           split: option.splits)

lemma run_ops_key_cases:
  "\<forall>x \<in> set ops. leaves_key k (snd x) \<Longrightarrow>
   cache (run_ops ops c) k = None \<or> cache (run_ops ops c) k = cache c k"
proof (induction ops arbitrary: c)
  case Nil
  then show ?case by simp
next
  case (Cons x xs)
  have a: "cache (run_op x c) k = None \<or> cache (run_op x c) k = cache c k"
    using Cons.prems by (simp add: run_op_key_cases)
  have b: "cache (run_ops xs (run_op x c)) k = None
           \<or> cache (run_ops xs (run_op x c)) k = cache (run_op x c) k"
    using Cons.IH [of "run_op x c"] Cons.prems by simp
  from a b show ?case by auto
qed

lemma run_op_live:
  "cache c k = Some e \<Longrightarrow> \<not> expired t e \<Longrightarrow> fst x \<le> t \<Longrightarrow> leaves_key k (snd x) \<Longrightarrow>
   cache (run_op x c) k = Some e"
  by (cases x; cases "snd x")
     (auto simp: MemoryCacher_get_def MemoryCacher_set_def MemoryCacher_purge_def
           split: option.splits dest: expired_mono)

lemma run_ops_live:
  "cache c k = Some e \<Longrightarrow> \<not> expired t e \<Longrightarrow>
   \<forall>x \<in> set ops. fst x \<le> t \<and> leaves_key k (snd x) \<Longrightarrow>
   cache (run_ops ops c) k = Some e"
proof (induction ops arbitrary: c)
  case Nil
  then show ?case by simp
next
  case (Cons x xs)
  have "cache (run_op x c) k = Some e"
    using Cons.prems by (simp add: run_op_live)
  then show ?case
    using Cons.IH [of "run_op x c"] Cons.prems by simp
qed

text \<open>
  C5. With a TTL of \<open>T\<close> seconds, a value set at time \<open>t0\<close> is returned by \<open>get\<close> at every
  time up to \<open>t0 + T * 1000\<close> milliseconds and is absent at every later time, whatever
  reads, purges and writes of other keys happen in between; after that time \<open>get\<close> gives
  \<open>null\<close> although the entry is still in the map. Without a TTL, or with the TTL zero,
  the value is returned at every time.
\<close>

theorem MemoryCacher_ttl:
  assumes ops: "\<forall>x \<in> set ops. t0 \<le> fst x \<and> fst x \<le> t \<and> leaves_key k (snd x)"
    and t0: "0 \<le> t0" and t: "t0 \<le> t"
  shows "(\<forall>T. ttl c = Some T \<and> 0 < T \<longrightarrow>
            (t \<le> t0 + T * 1000 \<longrightarrow>
               fst (MemoryCacher_get t k (run_ops ops (MemoryCacher_set t0 k v c))) = Some v)
          \<and> (t0 + T * 1000 < t \<longrightarrow>
               fst (MemoryCacher_get t k (run_ops ops (MemoryCacher_set t0 k v c))) = None
               \<and> cache (MemoryCacher_set t0 k v c) k \<noteq> None
               \<and> fst (MemoryCacher_get t k (MemoryCacher_set t0 k v c)) = None))
       \<and> (ttl c = None \<or> ttl c = Some 0 \<longrightarrow>
            fst (MemoryCacher_get t k (run_ops ops (MemoryCacher_set t0 k v c))) = Some v)"
proof -
  let ?s = "MemoryCacher_set t0 k v c"
  let ?e = "\<lparr>entry_value = v, entry_expires = new_expires t0 (ttl c)\<rparr>"
  have e: "cache ?s k = Some ?e"
    by (simp add: MemoryCacher_set_def)
  have leaves: "\<forall>x \<in> set ops. leaves_key k (snd x)"
    using ops by simp
  have upto: "\<forall>x \<in> set ops. fst x \<le> t \<and> leaves_key k (snd x)"
    using ops by simp
  have live: "\<not> expired t ?e \<Longrightarrow>
      fst (MemoryCacher_get t k (run_ops ops ?s)) = Some v"
  proof -
    assume l: "\<not> expired t ?e"
    have "cache (run_ops ops ?s) k = Some ?e"
      using run_ops_live [OF e l upto] .
    then show ?thesis
      using l by (simp add: MemoryCacher_get_def)
  qed
  have dead: "expired t ?e \<Longrightarrow>
      fst (MemoryCacher_get t k (run_ops ops ?s)) = None"
  proof -
    assume d: "expired t ?e"
    have "cache (run_ops ops ?s) k = None \<or> cache (run_ops ops ?s) k = Some ?e"
      using run_ops_key_cases [OF leaves, of ?s] e by simp
    then show ?thesis
      using d by (auto simp: MemoryCacher_get_def)
  qed
  have dead0: "expired t ?e \<Longrightarrow> fst (MemoryCacher_get t k ?s) = None"
    using e by (simp add: MemoryCacher_get_def)
  show ?thesis
  proof (intro conjI allI impI)
    fix T assume "ttl c = Some T \<and> 0 < T" and "t \<le> t0 + T * 1000"
    then have "\<not> expired t ?e"
      by (simp add: expired_def new_expires_def)
    then show "fst (MemoryCacher_get t k (run_ops ops ?s)) = Some v"
      by (rule live)
  next
    fix T assume a: "ttl c = Some T \<and> 0 < T" and b: "t0 + T * 1000 < t"
    have x: "expired t ?e"
      using a b t0 by (simp add: expired_def new_expires_def)
    show "fst (MemoryCacher_get t k (run_ops ops ?s)) = None"
      using x by (rule dead)
    show "cache ?s k \<noteq> None"
      using e by simp
    show "fst (MemoryCacher_get t k ?s) = None"
      using x by (rule dead0)
  next
    assume "ttl c = None \<or> ttl c = Some 0"
    then have "\<not> expired t ?e"
      by (auto simp: expired_def new_expires_def)
    then show "fst (MemoryCacher_get t k (run_ops ops ?s)) = Some v"
      by (rule live)
  qed
qed

theorem MemoryCacher_ttl_witness:
  "fst (MemoryCacher_get 2000 ''k''
          (run_ops example_history (MemoryCacher_set 1000 ''k'' ''v'' example_store))) = Some ''v''
   \<and> fst (MemoryCacher_get 2001 ''k''
          (run_ops example_history (MemoryCacher_set 1000 ''k'' ''v'' example_store))) = None
   \<and> fst (MemoryCacher_get 2001 ''k''
          (run_ops example_history
             (MemoryCacher_set 1000 ''k'' ''v'' (example_store\<lparr>ttl := None\<rparr>)))) = Some ''v''"
  using MemoryCacher_ttl [of example_history 1000 2000 "''k''" example_store "''v''"]
        MemoryCacher_ttl [of example_history 1000 2001 "''k''" example_store "''v''"]
        MemoryCacher_ttl [of example_history 1000 2001 "''k''" "example_store\<lparr>ttl := None\<rparr>" "''v''"]
  by (simp add: example_store_def example_history_def)

text \<open>
  C10. \<open>get\<close> on a key whose entry has expired removes that entry from the map; \<open>get\<close> on
  a live or absent key leaves the store as it is; and \<open>get\<close> never changes what is stored
  under another key, nor the TTL.
\<close>

theorem MemoryCacher_get_frame:
  "(\<forall>e. cache c k = Some e \<and> expired now e \<longrightarrow>
       snd (MemoryCacher_get now k c) = c\<lparr>cache := (cache c)(k := None)\<rparr>
       \<and> cache (snd (MemoryCacher_get now k c)) k = None)
   \<and> (cache c k = None \<or> (\<exists>e. cache c k = Some e \<and> \<not> expired now e) \<longrightarrow>
       snd (MemoryCacher_get now k c) = c)
   \<and> (\<forall>k'. k' \<noteq> k \<longrightarrow> cache (snd (MemoryCacher_get now k c)) k' = cache c k')
   \<and> ttl (snd (MemoryCacher_get now k c)) = ttl c"
  by (auto simp: MemoryCacher_get_def split: option.splits)

theorem MemoryCacher_get_frame_witness:
  "cache example_store ''old'' = Some \<lparr>entry_value = ''a'', entry_expires = Some 1000\<rparr>
   \<and> expired 2000 \<lparr>entry_value = ''a'', entry_expires = Some 1000\<rparr>
   \<and> cache (snd (MemoryCacher_get 2000 ''old'' example_store)) ''old'' = None
   \<and> cache (snd (MemoryCacher_get 2000 ''old'' example_store)) ''new''
       = cache example_store ''new''
   \<and> \<not> expired 2000 \<lparr>entry_value = ''b'', entry_expires = Some 9000\<rparr>
   \<and> snd (MemoryCacher_get 2000 ''new'' example_store) = example_store
   \<and> cache example_store ''none'' = None
   \<and> snd (MemoryCacher_get 2000 ''none'' example_store) = example_store"
  using MemoryCacher_get_frame [of example_store "''old''" 2000]
        MemoryCacher_get_frame [of example_store "''new''" 2000]
        MemoryCacher_get_frame [of example_store "''none''" 2000]
  by (simp add: example_store_def expired_def)

section \<open>The structure of a run of the chat handler\<close>


lemma chat_forward_cases:
  assumes "chat_forward E cacher now req key fnd st = (r, st', evs)"
  shows "(st' = st \<and> evs = [] \<and> (r = Done NoResponse \<or> (\<exists>m. r = Threw m [])))
       \<or> (\<exists>rq m. st' = st \<and> evs = [Upstream rq] \<and> r = Threw m [] \<and> fetch_json E rq = Throws m)
       \<or> (\<exists>rq j. fetch_json E rq = Returns j \<and> r = Done (Responded (json_response j))
             \<and> st' = fst (cache_write cacher now key (stringify j) st)
             \<and> evs = Upstream rq # snd (cache_write cacher now key (stringify j) st))"
  using assms
  by (auto simp: chat_forward_def respond_and_store_def oai_chatCompletion_def
        azoai_chatCompletion_def Let_def
      split: found.splits attempt.splits if_splits)


lemma cache_lookup_cases:
  assumes "cache_lookup cacher now req key st = (r, st1, evs)"
  shows "(r = Returns None \<and> st1 = st \<and> evs = [] \<and> (cacher = None \<or> no_cache req))
       \<or> (\<exists>c. cacher = Some c \<and> \<not> no_cache req \<and> r = fst (cacher_get c now key st)
              \<and> st1 = snd (cacher_get c now key st) \<and> evs = [CacheGet key])"
  using assms by (auto simp: cache_lookup_def split: option.splits if_splits)

lemma chat_handler_found:
  assumes "lookup_provider True cfg (request_provider req) = Returns fnd"
    and "fnd \<noteq> Missing"
    and "cache_lookup cacher t_get req (chat_key (request_provider req) (body req)) st = (r, st1, evs)"
  shows "chat_completion_handler E cfg cacher t_get t_set req st =
     catch_parsed E
       (case r of
          Throws m \<Rightarrow> (Threw m [], st1, evs)
        | Returns cached \<Rightarrow>
            (case truthy_string cached of
               Some s \<Rightarrow>
                 (case JSON_parse E s of
                    Throws m \<Rightarrow> (Threw m hit_header, st1, evs)
                  | Returns v \<Rightarrow> (Done (Responded (hit_response v)), st1, evs))
             | None \<Rightarrow>
                 after evs (chat_forward E cacher t_set req
                    (chat_key (request_provider req) (body req)) fnd st1)))"
  using assms by (simp add: chat_completion_handler_def Let_def split: attempt.splits)

lemma chat_handler_missing:
  assumes "lookup_provider True cfg (request_provider req) = Returns Missing"
  shows "chat_completion_handler E cfg cacher t_get t_set req st = (Responded invalid_provider, st, [])"
  using assms by (simp add: chat_completion_handler_def Let_def)

lemma chat_handler_rejected:
  assumes "lookup_provider True cfg (request_provider req) = Throws m"
  shows "chat_completion_handler E cfg cacher t_get t_set req st = (Rejected m, st, [])"
  using assms by (simp add: chat_completion_handler_def Let_def)

text \<open>The three ways the provider check can end.\<close>

lemma lookup_provider_cases:
  obtains (rejected) m where "lookup_provider plain cfg provider = Throws m"
    | (missing) "lookup_provider plain cfg provider = Returns Missing"
    | (found) fnd where "lookup_provider plain cfg provider = Returns fnd" "fnd \<noteq> Missing"
  by (cases "lookup_provider plain cfg provider") auto

lemma chat_handler_events:
  assumes "e \<in> set (snd (snd (chat_completion_handler E cfg cacher t_get t_set req st)))"
  shows "e = CacheGet (chat_key (request_provider req) (body req))
       \<or> (\<exists>v. e = CacheSet (chat_key (request_provider req) (body req)) v)
       \<or> (\<exists>rq. e = Upstream rq)"
proof (cases rule: lookup_provider_cases [of True cfg "request_provider req"])
  case (rejected m)
  then show ?thesis using assms by (simp add: chat_handler_rejected)
next
  case missing
  then show ?thesis using assms by (simp add: chat_handler_missing)
next
  case (found fnd)
  let ?key = "chat_key (request_provider req) (body req)"
  obtain r st1 evs where l: "cache_lookup cacher t_get req ?key st = (r, st1, evs)"
    by (cases "cache_lookup cacher t_get req ?key st") auto
  have evs: "evs = [] \<or> evs = [CacheGet ?key]"
    using cache_lookup_cases [OF l] by auto
  obtain r2 st2 evs2 where f: "chat_forward E cacher t_set req ?key fnd st1 = (r2, st2, evs2)"
    by (cases "chat_forward E cacher t_set req ?key fnd st1") auto
  have evs2: "\<forall>x \<in> set evs2. (\<exists>v. x = CacheSet ?key v) \<or> (\<exists>rq. x = Upstream rq)"
    using chat_forward_cases [OF f]
    by (auto simp: cache_write_def split: option.splits)
  show ?thesis
    using assms evs evs2
    unfolding chat_handler_found [OF found l] f
    by (auto simp: catch_parsed_def after_def
          split: tried.splits attempt.splits option.splits)
qed

lemma cache_lookup_no_cache:
  "no_cache req \<Longrightarrow> cache_lookup cacher now req key st = (Returns None, st, [])"
  by (simp add: cache_lookup_def split: option.splits)


lemma chat_forward_result:
  "fst (chat_forward E cacher now req key fnd st) = fst (chat_forward E cacher' now' req key' fnd st')"
  by (simp add: chat_forward_def respond_and_store_def oai_chatCompletion_def
        azoai_chatCompletion_def Let_def
      split: found.splits attempt.splits)



lemma after_Nil: "after [] r = r"
  by (cases r) (simp add: after_def)








lemma cache_lookup_set_irrelevant:
  "cache_lookup (Some (c\<lparr>cacher_set := w\<rparr>)) now req key st = cache_lookup (Some c) now req key st"
  by (simp add: cache_lookup_def)

lemma cache_write_failing:
  "fst (cache_write (Some (c\<lparr>cacher_set := (\<lambda>now key val s. (Throws m, s))\<rparr>)) now key v st) = st"
  by (simp add: cache_write_def)

lemma chat_forward_state:
  assumes "chat_forward E cacher now req key fnd st = (r, st', evs)"
  shows "st' = st \<or> (\<exists>v. st' = fst (cache_write cacher now key v st))"
  using chat_forward_cases [OF assms] by auto

section \<open>Cache writes and the upstream call\<close>




section \<open>The cache key\<close>

text \<open>
  C2, as the code has it. The key is the serialization of the body as parsed, fields in
  the order of the request text. Two bodies that are equal as key/value maps and differ
  in the order of their fields get different keys.
\<close>

theorem reordered_fields_change_key:
  "map_of (spread chat_body) = map_of (spread reordered_body)
   \<and> chat_key (Json (JStr ''p1'')) chat_body \<noteq> chat_key (Json (JStr ''p1'')) reordered_body"
proof
  show "map_of (spread chat_body) = map_of (spread reordered_body)"
    by (simp add: chat_body_def reordered_body_def fun_eq_iff)
  show "chat_key (Json (JStr ''p1'')) chat_body \<noteq> chat_key (Json (JStr ''p1'')) reordered_body"
    by code_simp
qed

text \<open>
  C2, amended. The key of every cache call of a run is the serialization of the provider
  and the body of the request: two requests with the same provider and the same body,
  fields in the same order, use the same key, whatever the other headers, the
  configuration, the store, the upstream, the time or the process.
\<close>

theorem cache_key_deterministic:
  assumes "request_provider req = request_provider req'" and "body req = body req'"
    and "e \<in> set (snd (snd (chat_completion_handler E cfg cacher t_get t_set req st)))"
    and "e' \<in> set (snd (snd (chat_completion_handler E' cfg' cacher' t_get' t_set' req' st')))"
    and "cache_key e = Some k" and "cache_key e' = Some k'"
  shows "k = k' \<and> k = chat_key (request_provider req) (body req)"
  using chat_handler_events [OF assms(3)] chat_handler_events [OF assms(4)] assms(1,2,5,6)
  by auto

theorem cache_key_deterministic_witness:
  "CacheGet (chat_key (Json (JStr ''p1'')) chat_body)
     \<in> set (snd (snd (chat_completion_handler (example_env upstream_ok) example_config
                        (Some MemoryCacher) 1000 2000 (example_request ''p1'' chat_body)
                        empty_store)))
   \<and> CacheGet (chat_key (Json (JStr ''p1'')) chat_body)
     \<in> set (snd (snd (chat_completion_handler (example_env upstream_401) example_config
                        (Some RedisCacher) 7000 9000 (example_request ''p1'' chat_body)
                        redis_up)))
   \<and> chat_key (Json (JStr ''p1'')) chat_body
       = chat_key (request_provider (example_request ''p1'' chat_body))
           (body (example_request ''p1'' chat_body))"
proof -
  let ?k = "chat_key (Json (JStr ''p1'')) chat_body"
  have a: "CacheGet ?k
     \<in> set (snd (snd (chat_completion_handler (example_env upstream_ok) example_config
                        (Some MemoryCacher) 1000 2000 (example_request ''p1'' chat_body)
                        empty_store)))"
    by code_simp
  have b: "CacheGet ?k
     \<in> set (snd (snd (chat_completion_handler (example_env upstream_401) example_config
                        (Some RedisCacher) 7000 9000 (example_request ''p1'' chat_body)
                        redis_up)))"
    by code_simp
  have k: "cache_key (CacheGet ?k) = Some ?k"
    by simp
  from cache_key_deterministic [OF refl refl a b k k] a b
  show ?thesis by simp
qed

text \<open>
  The key of a transcription request does not depend on the digest of the file: the
  \<open>ArrayBuffer\<close> is serialized as \<open>{}\<close>.
\<close>

lemma transcription_key_ignores_digest:
  "transcription_key provider data h = transcription_key provider data h'"
  by (simp add: transcription_key_def stringify_literal_def split: option.splits)

text \<open>
  C3. Two transcription requests with the same fields and different files, hence
  different digests, get the same key. The second one is answered from the cache with the
  transcript of the first file, and no upstream call is made for it.
\<close>

theorem different_files_share_cache_key:
  "digest (example_env upstream_transcribe) (buffer upload_a)
     \<noteq> digest (example_env upstream_transcribe) (buffer upload_b)
   \<and> transcription_key (Json (JStr ''az'')) (body (upload_request ''az'' upload_a))
         (digest (example_env upstream_transcribe) (buffer upload_a))
       = transcription_key (Json (JStr ''az'')) (body (upload_request ''az'' upload_b))
           (digest (example_env upstream_transcribe) (buffer upload_b))
   \<and> fst (audio_transcriptions_handler (example_env upstream_transcribe) example_config
            (Some MemoryCacher) 3000 4000 (upload_request ''az'' upload_b)
            (fst (snd (audio_transcriptions_handler (example_env upstream_transcribe)
                         example_config (Some MemoryCacher) 1000 2000
                         (upload_request ''az'' upload_a) empty_store))))
       = Responded
           \<lparr>status = 200,
            headers = [(''X-Cache-Status'', Json (JStr ''HIT'')),
                       (''Content-Type'', Json (JStr ''text/plain''))],
            payload = ResSend (Json (JStr ''transcript of a.wav''))\<rparr>
   \<and> upstream_urls
         (snd (snd (audio_transcriptions_handler (example_env upstream_transcribe) example_config
            (Some MemoryCacher) 3000 4000 (upload_request ''az'' upload_b)
            (fst (snd (audio_transcriptions_handler (example_env upstream_transcribe)
                         example_config (Some MemoryCacher) 1000 2000
                         (upload_request ''az'' upload_a) empty_store)))))) = []"
  by code_simp

section \<open>Bypassing the cache\<close>




text \<open>
  The handler of \<open>/audio/transcriptions\<close> has the same guard: with \<open>no-cache\<close> in the
  header it makes no cache read and sends no \<open>X-Cache-Status\<close> header.
\<close>

lemma transcription_forward_cases:
  assumes "transcription_forward E cacher now req f key fnd st = (r, st', evs)"
  shows "(st' = st \<and> evs = [] \<and> (r = Done NoResponse \<or> (\<exists>m. r = Threw m [])))
       \<or> (\<exists>rq m. st' = st \<and> evs = [Upstream rq] \<and> r = Threw m [] \<and> fetch E rq = FetchFails m)
       \<or> (\<exists>rq resp. fetch E rq = FetchReturns resp
             \<and> r = Done (Responded (sent_response [] (transcription_result resp)))
             \<and> st' = fst (cache_write cacher now key (stringify (transcription_result resp)) st)
             \<and> evs = Upstream rq
                   # snd (cache_write cacher now key (stringify (transcription_result resp)) st))"
  using assms
  by (auto simp: transcription_forward_def azoai_audioTranscription_def Let_def
      split: found.splits attempt.splits if_splits fetch_result.splits)

lemma transcription_no_cache:
  assumes nc: "no_cache req"
  shows "CacheGet k \<notin> set (snd (snd (audio_transcriptions_handler E cfg cacher t_get t_set req st)))
       \<and> (\<forall>r. fst (audio_transcriptions_handler E cfg cacher t_get t_set req st) = Responded r
              \<longrightarrow> map_of (headers r) ''X-Cache-Status'' = None)"
proof (cases rule: lookup_provider_cases [of "\<not> multipart req" cfg "request_provider req"])
  case (rejected m)
  then show ?thesis
    by (simp add: audio_transcriptions_handler_def Let_def)
next
  case missing
  then show ?thesis
    by (simp add: audio_transcriptions_handler_def Let_def invalid_provider_def)
next
  case (found fnd)
  show ?thesis
  proof (cases "uploaded_file req")
    case None
    then show ?thesis
      using found
      by (simp add: audio_transcriptions_handler_def Let_def catch_message_def internal_error_def)
  next
    case (Some f)
    let ?key = "transcription_key (request_provider req) (body req) (digest E (buffer f))"
    obtain r st' evs where fw: "transcription_forward E cacher t_set req f ?key fnd st = (r, st', evs)"
      by (cases "transcription_forward E cacher t_set req f ?key fnd st") auto
    have h: "audio_transcriptions_handler E cfg cacher t_get t_set req st = catch_message (r, st', evs)"
      using found Some fw cache_lookup_no_cache [OF nc, of cacher t_get ?key st]
      by (simp add: audio_transcriptions_handler_def Let_def truthy_string_def after_Nil)
    show ?thesis
      unfolding h
      using transcription_forward_cases [OF fw]
      by (auto simp: catch_message_def sent_response_def internal_error_def cache_write_def
               split: attempt.splits option.splits)
  qed
qed

section \<open>Failures of the cache store\<close>

text \<open>
  C6, as the code has it. With a Redis store whose connection failed, \<open>get\<close> throws
  inside the \<open>try\<close> block: the run makes no upstream call and the request fails, while
  the same request with a reachable, empty store succeeds.
\<close>

theorem failing_cache_read_fails_request:
  "fst (cacher_get RedisCacher 1000 (chat_key (Json (JStr ''p1'')) chat_body) redis_down)
     = Throws ''Connection refused''
   \<and> fst (chat_completion_handler (example_env upstream_ok) example_config (Some RedisCacher)
            1000 2000 (example_request ''p1'' chat_body) redis_down)
       = Rejected ''Unexpected token''
   \<and> upstream_urls
        (snd (snd (chat_completion_handler (example_env upstream_ok) example_config
                     (Some RedisCacher) 1000 2000 (example_request ''p1'' chat_body)
                     redis_down))) = []
   \<and> fst (chat_completion_handler (example_env upstream_ok) example_config (Some RedisCacher)
            1000 2000 (example_request ''p1'' chat_body) redis_up)
       = Responded (json_response ok_body)"
  by code_simp

text \<open>
  C6, amended. The outcome of a run does not depend on what \<open>set\<close> does, so a failing
  \<open>set\<close> changes no response; with a \<open>set\<close> that throws, the store is left as the
  cache read left it. A failing \<open>get\<close> is not taken as a miss: the read is the only call
  of the run, so there is no upstream call and no write, and the run does not end with a
  success response.
\<close>

theorem cache_failure_effects:
  "fst (chat_completion_handler E cfg (Some (c\<lparr>cacher_set := w\<rparr>)) t_get t_set req st)
     = fst (chat_completion_handler E cfg (Some c) t_get t_set req st)
   \<and> (lookup_provider True cfg (request_provider req) = Returns fnd \<and> fnd \<noteq> Missing
      \<longrightarrow> fst (snd (chat_completion_handler E cfg
                 (Some (c\<lparr>cacher_set := (\<lambda>now key val s. (Throws m', s))\<rparr>)) t_get t_set req st))
           = fst (snd (cache_lookup (Some c) t_get req
                         (chat_key (request_provider req) (body req)) st)))
   \<and> (lookup_provider True cfg (request_provider req) = Returns fnd \<and> fnd \<noteq> Missing
        \<and> \<not> no_cache req
        \<and> fst (cacher_get c t_get (chat_key (request_provider req) (body req)) st) = Throws m
      \<longrightarrow> snd (snd (chat_completion_handler E cfg (Some c) t_get t_set req st))
             = [CacheGet (chat_key (request_provider req) (body req))]
          \<and> fst (snd (chat_completion_handler E cfg (Some c) t_get t_set req st))
             = snd (cacher_get c t_get (chat_key (request_provider req) (body req)) st)
          \<and> fst (chat_completion_handler E cfg (Some c) t_get t_set req st) \<noteq> NoResponse
          \<and> (\<forall>r. fst (chat_completion_handler E cfg (Some c) t_get t_set req st) = Responded r
                 \<longrightarrow> status r = 500))"
proof (cases rule: lookup_provider_cases [of True cfg "request_provider req"])
  case (rejected m)
  then show ?thesis
    by (simp add: chat_handler_rejected)
next
  case missing
  then show ?thesis
    by (auto simp: chat_handler_missing)
next
  case (found fnd')
  let ?key = "chat_key (request_provider req) (body req)"
  let ?c' = "c\<lparr>cacher_set := w\<rparr>"
  let ?cf = "c\<lparr>cacher_set := (\<lambda>now key val s. (Throws m', s))\<rparr>"
  obtain r st1 evs1 where l: "cache_lookup (Some c) t_get req ?key st = (r, st1, evs1)"
    by (cases "cache_lookup (Some c) t_get req ?key st") auto
  have l': "cache_lookup (Some ?c') t_get req ?key st = (r, st1, evs1)"
    using l by (simp add: cache_lookup_set_irrelevant)
  have lf: "cache_lookup (Some ?cf) t_get req ?key st = (r, st1, evs1)"
    using l by (simp add: cache_lookup_set_irrelevant)
  have same: "fst (chat_forward E (Some ?c') t_set req ?key fnd' st1)
            = fst (chat_forward E (Some c) t_set req ?key fnd' st1)"
    by (rule chat_forward_result)
  have first: "fst (chat_completion_handler E cfg (Some ?c') t_get t_set req st)
             = fst (chat_completion_handler E cfg (Some c) t_get t_set req st)"
    unfolding chat_handler_found [OF found l] chat_handler_found [OF found l']
    using same
    by (cases "chat_forward E (Some ?c') t_set req ?key fnd' st1";
        cases "chat_forward E (Some c) t_set req ?key fnd' st1")
       (auto simp: catch_parsed_def after_def split: tried.splits attempt.splits option.splits)
  obtain r2 st2 evs2 where f: "chat_forward E (Some ?cf) t_set req ?key fnd' st1 = (r2, st2, evs2)"
    by (cases "chat_forward E (Some ?cf) t_set req ?key fnd' st1") auto
  have st2: "st2 = st1"
    using chat_forward_state [OF f] by (auto simp: cache_write_failing)
  have second: "fst (snd (chat_completion_handler E cfg (Some ?cf) t_get t_set req st)) = st1"
    unfolding chat_handler_found [OF found lf] f
    using st2
    by (auto simp: catch_parsed_def after_def split: tried.splits attempt.splits option.splits)
  have third: "\<not> no_cache req \<and> fst (cacher_get c t_get ?key st) = Throws m
      \<longrightarrow> snd (snd (chat_completion_handler E cfg (Some c) t_get t_set req st)) = [CacheGet ?key]
          \<and> fst (snd (chat_completion_handler E cfg (Some c) t_get t_set req st))
             = snd (cacher_get c t_get ?key st)
          \<and> fst (chat_completion_handler E cfg (Some c) t_get t_set req st) \<noteq> NoResponse
          \<and> (\<forall>r. fst (chat_completion_handler E cfg (Some c) t_get t_set req st) = Responded r
                 \<longrightarrow> status r = 500)"
  proof
    assume a: "\<not> no_cache req \<and> fst (cacher_get c t_get ?key st) = Throws m"
    have r: "r = Throws m" "st1 = snd (cacher_get c t_get ?key st)" "evs1 = [CacheGet ?key]"
      using l a by (auto simp: cache_lookup_def)
    show "snd (snd (chat_completion_handler E cfg (Some c) t_get t_set req st)) = [CacheGet ?key]
          \<and> fst (snd (chat_completion_handler E cfg (Some c) t_get t_set req st))
             = snd (cacher_get c t_get ?key st)
          \<and> fst (chat_completion_handler E cfg (Some c) t_get t_set req st) \<noteq> NoResponse
          \<and> (\<forall>r. fst (chat_completion_handler E cfg (Some c) t_get t_set req st) = Responded r
                 \<longrightarrow> status r = 500)"
      unfolding chat_handler_found [OF found l] r
      by (auto simp: catch_parsed_def internal_error_def split: attempt.splits)
  qed
  show ?thesis
    using first second third l by simp
qed

theorem cache_failure_effects_witness:
  "lookup_provider True example_config (request_provider (example_request ''p1'' chat_body))
     = Returns (Own \<lparr>ptype = OpenAI, api_key = ''sk-1'', provider_url = None\<rparr>)
   \<and> \<not> no_cache (example_request ''p1'' chat_body)
   \<and> fst (cacher_get RedisCacher 1000
            (chat_key (request_provider (example_request ''p1'' chat_body))
               (body (example_request ''p1'' chat_body))) redis_down)
       = Throws ''Connection refused''
   \<and> snd (snd (chat_completion_handler (example_env upstream_ok) example_config
                 (Some RedisCacher) 1000 2000 (example_request ''p1'' chat_body) redis_down))
       = [CacheGet (chat_key (request_provider (example_request ''p1'' chat_body))
                      (body (example_request ''p1'' chat_body)))]
   \<and> fst (chat_completion_handler (example_env upstream_ok) example_config
            (Some (MemoryCacher\<lparr>cacher_set := (\<lambda>now key val s. (Throws ''out of memory'', s))\<rparr>))
            1000 2000 (example_request ''p1'' chat_body) empty_store)
       = Responded (json_response ok_body)"
proof -
  let ?req = "example_request ''p1'' chat_body"
  let ?key = "chat_key (request_provider ?req) (body ?req)"
  let ?own = "Own \<lparr>ptype = OpenAI, api_key = ''sk-1'', provider_url = None\<rparr>"
  have found: "lookup_provider True example_config (request_provider ?req) = Returns ?own"
    by code_simp
  have there: "?own \<noteq> Missing"
    by simp
  have read: "\<not> no_cache ?req"
    by code_simp
  have fails: "fst (cacher_get RedisCacher 1000 ?key redis_down) = Throws ''Connection refused''"
    by code_simp
  have works: "fst (chat_completion_handler (example_env upstream_ok) example_config
                 (Some MemoryCacher) 1000 2000 ?req empty_store)
               = Responded (json_response ok_body)"
    by code_simp
  from cache_failure_effects [where E = "example_env upstream_ok" and cfg = example_config
         and c = RedisCacher and t_get = 1000 and t_set = 2000 and req = ?req
         and st = redis_down and m = "''Connection refused''" and fnd = ?own]
       cache_failure_effects [where E = "example_env upstream_ok" and cfg = example_config
         and c = MemoryCacher and w = "\<lambda>now key val s. (Throws ''out of memory'', s)"
         and t_get = 1000 and t_set = 2000 and req = ?req and st = empty_store]
       found there read fails works
  show ?thesis by simp
qed

section \<open>Providers and deployments\<close>

text \<open>
  C7. The name \<open>constructor\<close> is not a provider of the configuration, yet the property
  read finds the inherited \<open>Object.prototype.constructor\<close>: the check passes, the cache
  is read, and the run ends without any response.
\<close>

theorem inherited_name_passes_provider_check:
  "map_of (providers example_config) ''constructor'' = None
   \<and> fst (chat_completion_handler (example_env upstream_ok) example_config (Some MemoryCacher)
            1000 2000 (example_request ''constructor'' chat_body) empty_store) = NoResponse
   \<and> snd (snd (chat_completion_handler (example_env upstream_ok) example_config
                 (Some MemoryCacher) 1000 2000 (example_request ''constructor'' chat_body)
                 empty_store))
       = [CacheGet (chat_key (Json (JStr ''constructor'')) chat_body)]"
  by code_simp

text \<open>
  A name that is neither configured nor a property of \<open>Object.prototype\<close> is rejected
  with the 400 response, before any call.
\<close>

lemma unknown_provider_rejected:
  assumes "js_to_string True (request_provider req) = Returns name"
    and "map_of (providers cfg) name = None"
    and "name \<notin> set object_prototype_names"
  shows "chat_completion_handler E cfg cacher t_get t_set req st
           = (Responded invalid_provider, st, [])"
  using assms by (simp add: chat_handler_missing lookup_provider_def providers_lookup_def)

text \<open>
  C8, as the code has it. A request for an Azure provider without any deployment id is
  not rejected: the cache is read, the upstream is called with \<open>undefined\<close> as the
  deployment in the URL, and the result is stored and returned.
\<close>

theorem azure_without_deployment_is_forwarded:
  "deploymentId (azure_opts (example_request ''az'' chat_body)
        \<lparr>ptype = AzureOpenAIService, api_key = ''key-2'',
         provider_url = Some ''https://az.example''\<rparr>) = Undefined
   \<and> providers_lookup example_config ''az''
       = Own \<lparr>ptype = AzureOpenAIService, api_key = ''key-2'',
              provider_url = Some ''https://az.example''\<rparr>
   \<and> map cache_key
        (snd (snd (chat_completion_handler (example_env upstream_ok) example_config
                     (Some MemoryCacher) 1000 2000 (example_request ''az'' chat_body)
                     empty_store)))
       = [Some (chat_key (Json (JStr ''az'')) chat_body), None,
          Some (chat_key (Json (JStr ''az'')) chat_body)]
   \<and> upstream_urls
        (snd (snd (chat_completion_handler (example_env upstream_ok) example_config
                     (Some MemoryCacher) 1000 2000 (example_request ''az'' chat_body)
                     empty_store)))
       = [''https://az.example/openai/deployments/undefined/chat/completions?api-version=2023-08-01-preview'']
   \<and> fst (chat_completion_handler (example_env upstream_ok) example_config
            (Some MemoryCacher) 1000 2000 (example_request ''az'' chat_body) empty_store)
       = Responded (json_response ok_body)"
  by code_simp

text \<open>
  C8, amended. For an Azure provider and a request without a deployment id, the run
  goes on like any other: after the cache read, if it gave nothing, a non-streaming
  request with valid arguments is sent to the URL whose deployment segment is
  \<open>undefined\<close>, and the outcome is what that call returns or throws.
\<close>

theorem azure_deployment_unchecked:
  assumes own: "lookup_provider True cfg (request_provider req) = Returns (Own pc)"
    and azure: "ptype pc = AzureOpenAIService"
    and none: "deploymentId (azure_opts req pc) = Undefined"
    and plain: "\<not> js_truthy (get_prop (body req) ''stream'')"
    and valid: "zparse AzureOpenAIChatCompletionArgs (Some (body req)) = ZValid (Some args)"
    and miss: "cache_lookup cacher t_get req (chat_key (request_provider req) (body req)) st
                 = (Returns x, st1, evs1)"
      "truthy_string x = None"
  shows "azoai_chatCompletion E True (azure_opts req pc) args
           = ([(azoai_chat_request
                 (opt_to_string (provider_url pc)
                   @ ''/openai/deployments/undefined/chat/completions?api-version=2023-08-01-preview'')
                 (azure_opts req pc) args)],
              fetch_json E (azoai_chat_request
                 (opt_to_string (provider_url pc)
                   @ ''/openai/deployments/undefined/chat/completions?api-version=2023-08-01-preview'')
                 (azure_opts req pc) args))
       \<and> http_url (azoai_chat_request
                 (opt_to_string (provider_url pc)
                   @ ''/openai/deployments/undefined/chat/completions?api-version=2023-08-01-preview'')
                 (azure_opts req pc) args)
           = opt_to_string (provider_url pc)
               @ ''/openai/deployments/undefined/chat/completions?api-version=2023-08-01-preview''
       \<and> (\<exists>ws. snd (snd (chat_completion_handler E cfg cacher t_get t_set req st))
                  = evs1 @ Upstream (azoai_chat_request
                 (opt_to_string (provider_url pc)
                   @ ''/openai/deployments/undefined/chat/completions?api-version=2023-08-01-preview'')
                 (azure_opts req pc) args) # ws)
       \<and> fst (chat_completion_handler E cfg cacher t_get t_set req st)
           = fst (catch_parsed E
                    (case fetch_json E (azoai_chat_request
                 (opt_to_string (provider_url pc)
                   @ ''/openai/deployments/undefined/chat/completions?api-version=2023-08-01-preview'')
                 (azure_opts req pc) args) of
                       Throws m \<Rightarrow> (Threw m [], st1, [])
                     | Returns j \<Rightarrow> (Done (Responded (json_response j)), st1, [])))"
proof -
  let ?key = "chat_key (request_provider req) (body req)"
  define rq where "rq = (azoai_chat_request
                 (opt_to_string (provider_url pc)
                   @ ''/openai/deployments/undefined/chat/completions?api-version=2023-08-01-preview'')
                 (azure_opts req pc) args)"
  have found: "Own pc \<noteq> Missing"
    by simp
  have u: "azure_url True (azure_opts req pc) ''/chat/completions?api-version=2023-08-01-preview''
      = Returns (opt_to_string (provider_url pc)
           @ ''/openai/deployments/undefined/chat/completions?api-version=2023-08-01-preview'')"
    using none by (simp add: azure_url_def azure_opts_def)
  have call: "azoai_chatCompletion E True (azure_opts req pc) args = ([rq], fetch_json E rq)"
    using u by (simp add: azoai_chatCompletion_def rq_def)
  have f: "chat_forward E cacher t_set req ?key (Own pc) st1
      = respond_and_store cacher t_set ?key ([rq], fetch_json E rq) st1"
    using azure plain valid call
    by (simp add: chat_forward_def schema_parse_def)
  have h: "chat_completion_handler E cfg cacher t_get t_set req st
      = catch_parsed E (after evs1
          (respond_and_store cacher t_set ?key ([rq], fetch_json E rq) st1))"
    unfolding chat_handler_found [OF own found miss(1)]
    using miss(2) f by simp
  have url: "http_url rq
           = opt_to_string (provider_url pc)
               @ ''/openai/deployments/undefined/chat/completions?api-version=2023-08-01-preview''"
    by (simp add: rq_def azoai_chat_request_def)
  have "azoai_chatCompletion E True (azure_opts req pc) args = ([rq], fetch_json E rq)
       \<and> http_url rq
           = opt_to_string (provider_url pc)
               @ ''/openai/deployments/undefined/chat/completions?api-version=2023-08-01-preview''
       \<and> (\<exists>ws. snd (snd (chat_completion_handler E cfg cacher t_get t_set req st))
                  = evs1 @ Upstream rq # ws)
       \<and> fst (chat_completion_handler E cfg cacher t_get t_set req st)
           = fst (catch_parsed E
                    (case fetch_json E rq of
                       Throws m \<Rightarrow> (Threw m [], st1, [])
                     | Returns j \<Rightarrow> (Done (Responded (json_response j)), st1, [])))"
  proof (cases "fetch_json E rq")
    case (Returns j)
    then show ?thesis
      using url call unfolding h
      by (simp add: respond_and_store_def catch_parsed_def after_def)
  next
    case (Throws m)
    then show ?thesis
      using url call unfolding h
      by (simp add: respond_and_store_def catch_parsed_def after_def split: attempt.splits)
  qed
  then show ?thesis
    unfolding rq_def .
qed

theorem azure_deployment_unchecked_witness:
  "deploymentId (azure_opts (example_request ''az'' chat_body)
        \<lparr>ptype = AzureOpenAIService, api_key = ''key-2'',
         provider_url = Some ''https://az.example''\<rparr>) = Undefined
   \<and> (\<exists>ws. snd (snd (chat_completion_handler (example_env upstream_ok) example_config
                        (Some MemoryCacher) 1000 2000 (example_request ''az'' chat_body)
                        empty_store))
         = [CacheGet (chat_key (request_provider (example_request ''az'' chat_body))
                        (body (example_request ''az'' chat_body)))]
           @ Upstream (azoai_chat_request
                ''https://az.example/openai/deployments/undefined/chat/completions?api-version=2023-08-01-preview''
                (azure_opts (example_request ''az'' chat_body)
                   \<lparr>ptype = AzureOpenAIService, api_key = ''key-2'',
                    provider_url = Some ''https://az.example''\<rparr>)
                (JObj [(''messages'',
                        JArr [JObj [(''role'', JStr ''user''), (''content'', JStr ''hi'')]])]))
             # ws)"
proof -
  let ?req = "example_request ''az'' chat_body"
  let ?pc = "\<lparr>ptype = AzureOpenAIService, api_key = ''key-2'',
              provider_url = Some ''https://az.example''\<rparr>"
  let ?args = "JObj [(''messages'', JArr [JObj [(''role'', JStr ''user''), (''content'', JStr ''hi'')]])]"
  let ?key = "chat_key (request_provider ?req) (body ?req)"
  have own: "lookup_provider True example_config (request_provider ?req) = Returns (Own ?pc)"
    by code_simp
  have azure: "ptype ?pc = AzureOpenAIService"
    by simp
  have none: "deploymentId (azure_opts ?req ?pc) = Undefined"
    by code_simp
  have plain: "\<not> js_truthy (get_prop (body ?req) ''stream'')"
    by code_simp
  have valid: "zparse AzureOpenAIChatCompletionArgs (Some (body ?req)) = ZValid (Some ?args)"
    by code_simp
  have read: "\<not> no_cache ?req"
    by code_simp
  have miss: "cache_lookup (Some MemoryCacher) 1000 ?req ?key empty_store
                = (Returns None, empty_store, [CacheGet ?key])"
    using read
    by (simp add: cache_lookup_def MemoryCacher_def MemoryCacher_get_def empty_store_def)
  have falsy: "truthy_string None = None"
    by (simp add: truthy_string_def)
  from azure_deployment_unchecked [OF own azure none plain valid miss falsy,
         of "example_env upstream_ok" 2000] none
  show ?thesis
    by (simp add: opt_to_string_def)
qed

section \<open>Outcomes\<close>

text \<open>
  C9. Runs that end with neither a success body nor an error envelope: an embeddings
  request for an OpenAI provider, a chat request with \<open>stream\<close> set, a chat request for
  a provider of a type without a branch, and a chat request whose upstream is unreachable
  (the \<open>catch\<close> block throws on the message, which is not JSON).
\<close>

theorem requests_left_without_response:
  "fst (embeddings_handler (example_env upstream_ok) example_config
          (example_request ''p1'' embeddings_body) ()) = NoResponse
   \<and> fst (chat_completion_handler (example_env upstream_ok) example_config None 1000 2000
            (example_request ''p1'' stream_body) ()) = NoResponse
   \<and> fst (chat_completion_handler (example_env upstream_ok) example_config None 1000 2000
            (example_request ''claude'' chat_body) ()) = NoResponse
   \<and> fst (chat_completion_handler (example_env upstream_down) example_config None 1000 2000
            (example_request ''p1'' chat_body) ()) = Rejected ''Unexpected token''"
  by code_simp

end
